theory Spec2Isabelle
  imports Complex_Main
begin

section \<open>The electrodiffusive Pinsky-Rinzel model driver\<close>

text \<open>
  The development follows \<^verbatim>\<open>solve_EDPRmodel.py\<close>: the function
  \<^verbatim>\<open>solve_EDPRmodel\<close> fixes the temperature and the initial conditions, defines the
  nested rate function \<^verbatim>\<open>dkdt(t, k)\<close> and hands it to an ODE integrator.

  Python floats are modelled as \<^typ>\<open>real\<close>: the driver itself only compares times,
  moves values between tuples and evaluates the initial conditions, so the theorems below
  are about which value goes where and about the exact algebra of the initial
  conditions, not about rounding.
\<close>

subsection \<open>Errors\<close>

text \<open>
  The only exception the driver itself can raise is the \<^verbatim>\<open>ValueError\<close> of a tuple
  unpacking whose right-hand side has the wrong number of items.
\<close>

datatype py_error = ValueError

subsection \<open>The model object and what its methods return\<close>

text \<open>
  Modelled from the spec: the constructor of the class \<^verbatim>\<open>EDPRmodel\<close>, which is imported
  from a module that is not among the sources. The specification describes the model
  object as an immutable snapshot "constructed once per rate evaluation from the
  integrator's current vector", given the temperature, the 20 concentrations, \<open>alpha\<close>,
  the two calcium baselines and the 6 gating values, and says of its domain that it is
  "not enforced by a guard". So the call
  \<^verbatim>\<open>EDPRmodel(T, Na_si, ..., X_de, alpha, Ca_si0, Ca_di0, n, h, s, c, q, z)\<close> is the record
  of its thirty arguments, one field for each in the order of the call, and raises
  nothing. The driver's example script passes whole trajectories (arrays) for the
  concentrations to the same constructor.
\<close>

record EDPRmodel =
  cell_T :: real
  cell_Na_si :: real
  cell_Na_se :: real
  cell_Na_di :: real
  cell_Na_de :: real
  cell_K_si :: real
  cell_K_se :: real
  cell_K_di :: real
  cell_K_de :: real
  cell_Cl_si :: real
  cell_Cl_se :: real
  cell_Cl_di :: real
  cell_Cl_de :: real
  cell_Ca_si :: real
  cell_Ca_se :: real
  cell_Ca_di :: real
  cell_Ca_de :: real
  cell_X_si :: real
  cell_X_se :: real
  cell_X_di :: real
  cell_X_de :: real
  cell_alpha :: real
  cell_Ca_si0 :: real
  cell_Ca_di0 :: real
  cell_n :: real
  cell_h :: real
  cell_s :: real
  cell_c :: real
  cell_q :: real
  cell_z :: real

text \<open>
  The twenty values that \<^verbatim>\<open>my_cell.dkdt()\<close> is unpacked into, under the names of lines
  66-67.
\<close>

record conc_rates =
  dNadt_si :: real
  dNadt_se :: real
  dNadt_di :: real
  dNadt_de :: real
  dKdt_si :: real
  dKdt_se :: real
  dKdt_di :: real
  dKdt_de :: real
  dCldt_si :: real
  dCldt_se :: real
  dCldt_di :: real
  dCldt_de :: real
  dCadt_si :: real
  dCadt_se :: real
  dCadt_di :: real
  dCadt_de :: real
  dresdt_si :: real
  dresdt_se :: real
  dresdt_di :: real
  dresdt_de :: real

text \<open>The six values that \<^verbatim>\<open>my_cell.dmdt()\<close> is unpacked into.\<close>

record gate_rates =
  dndt :: real
  dhdt :: real
  dsdt :: real
  dcdt :: real
  dqdt :: real
  dzdt :: real

text \<open>
  The class \<^verbatim>\<open>EDPRmodel\<close> comes from the module \<^verbatim>\<open>EDPRmodel\<close>, whose equations are
  not part of the driver. Its methods and the attributes that the driver reads are
  parameters of everything below: every theorem holds for every model class.
\<close>

record EDPRmodel_class =
  meth_dkdt :: "EDPRmodel \<Rightarrow> conc_rates"
  meth_dmdt :: "EDPRmodel \<Rightarrow> gate_rates"
  meth_membrane_potentials :: "EDPRmodel \<Rightarrow> real \<times> real \<times> real \<times> real \<times> real \<times> real"
  meth_reversal_potentials ::
    "EDPRmodel \<Rightarrow> real \<times> real \<times> real \<times> real \<times> real \<times> real \<times> real \<times> real"
  meth_total_charge :: "EDPRmodel \<Rightarrow> real list \<Rightarrow> real \<Rightarrow> real"
  attr_V_si :: "EDPRmodel \<Rightarrow> real"
  attr_V_se :: "EDPRmodel \<Rightarrow> real"
  attr_V_di :: "EDPRmodel \<Rightarrow> real"
  attr_V_de :: "EDPRmodel \<Rightarrow> real"
  attr_F :: "EDPRmodel \<Rightarrow> real"

text \<open>
  \<^verbatim>\<open>somatic_injection_current(neuron, dkdt_si, dkdt_se, Z, I_stim)\<close> returns a pair of
  rates; \<^verbatim>\<open>solve_ivp(fun, t_span, y0, max_step=...)\<close> returns a solution object or raises.
\<close>

type_synonym injector = "EDPRmodel \<Rightarrow> real \<Rightarrow> real \<Rightarrow> real \<Rightarrow> real \<Rightarrow> real \<times> real"

type_synonym rate_fun = "real \<Rightarrow> real list \<Rightarrow> py_error + real list"

record OdeResult =
  sol_t :: "real list"
  sol_y :: "real list list"

type_synonym integrator = "rate_fun \<Rightarrow> real \<times> real \<Rightarrow> real list \<Rightarrow> real \<Rightarrow> py_error + OdeResult"

subsection \<open>The constants of \<^verbatim>\<open>solve_EDPRmodel\<close>\<close>

definition T :: real where "T = 30914 / 100"

definition Na_si0 :: real where "Na_si0 = 18"
definition Na_se0 :: real where "Na_se0 = 140"
definition K_si0 :: real where "K_si0 = 99"
definition K_se0 :: real where "K_se0 = 43 / 10"
definition Cl_si0 :: real where "Cl_si0 = 7"
definition Cl_se0 :: real where "Cl_se0 = 134"
definition Ca_si0 :: real where "Ca_si0 = 1 / 100"
definition Ca_se0 :: real where "Ca_se0 = 11 / 10"

definition Na_di0 :: real where "Na_di0 = 18"
definition Na_de0 :: real where "Na_de0 = 140"
definition K_di0 :: real where "K_di0 = 99"
definition K_de0 :: real where "K_de0 = 43 / 10"
definition Cl_di0 :: real where "Cl_di0 = 7"
definition Cl_de0 :: real where "Cl_de0 = 134"
definition Ca_di0 :: real where "Ca_di0 = 1 / 100"
definition Ca_de0 :: real where "Ca_de0 = 11 / 10"

text \<open>
  \<^verbatim>\<open>res_i = -68e-3*3e-2*616e-12/(1437e-18*9.648e4)\<close> and
  \<^verbatim>\<open>res_e = -68e-3*3e-2*616e-12/(718.5e-18*9.648e4)\<close>.
\<close>

definition res_i :: real where
  "res_i = - (68 / 10 ^ 3) * (3 / 10 ^ 2) * (616 / 10 ^ 12) / ((1437 / 10 ^ 18) * 96480)"

definition res_e :: real where
  "res_e = - (68 / 10 ^ 3) * (3 / 10 ^ 2) * (616 / 10 ^ 12) / ((7185 / 10 ^ 19) * 96480)"

definition X_si0 :: real where "X_si0 = Na_si0 + K_si0 - Cl_si0 + 2 * Ca_si0 - res_i"
definition X_se0 :: real where "X_se0 = Na_se0 + K_se0 - Cl_se0 + 2 * Ca_se0 + res_e"
definition X_di0 :: real where "X_di0 = Na_di0 + K_di0 - Cl_di0 + 2 * Ca_di0 - res_i"
definition X_de0 :: real where "X_de0 = Na_de0 + K_de0 - Cl_de0 + 2 * Ca_de0 + res_e"

definition n0 :: real where "n0 = 3 / 10000"
definition h0 :: real where "h0 = 999 / 1000"
definition s0 :: real where "s0 = 7 / 1000"
definition c0 :: real where "c0 = 6 / 1000"
definition q0 :: real where "q0 = 11 / 1000"
definition z0 :: real where "z0 = 1"

definition k0 :: "real list" where
  "k0 = [Na_si0, Na_se0, Na_di0, Na_de0, K_si0, K_se0, K_di0, K_de0,
         Cl_si0, Cl_se0, Cl_di0, Cl_de0, Ca_si0, Ca_se0, Ca_di0, Ca_de0,
         X_si0, X_se0, X_di0, X_de0, n0, h0, s0, c0, q0, z0]"

subsection \<open>The rate function \<^verbatim>\<open>dkdt\<close>\<close>

text \<open>
  Line 64: the snapshot built from the unpacked state vector. The temperature and the two
  calcium baselines are the variables of the enclosing function, \<open>alpha\<close> is its
  argument.
\<close>

definition my_cell :: "real \<Rightarrow> real list \<Rightarrow> EDPRmodel" where
  "my_cell alpha k =
     \<lparr>cell_T = T,
      cell_Na_si = k ! 0, cell_Na_se = k ! 1, cell_Na_di = k ! 2, cell_Na_de = k ! 3,
      cell_K_si = k ! 4, cell_K_se = k ! 5, cell_K_di = k ! 6, cell_K_de = k ! 7,
      cell_Cl_si = k ! 8, cell_Cl_se = k ! 9, cell_Cl_di = k ! 10, cell_Cl_de = k ! 11,
      cell_Ca_si = k ! 12, cell_Ca_se = k ! 13, cell_Ca_di = k ! 14, cell_Ca_de = k ! 15,
      cell_X_si = k ! 16, cell_X_se = k ! 17, cell_X_di = k ! 18, cell_X_de = k ! 19,
      cell_alpha = alpha, cell_Ca_si0 = Ca_si0, cell_Ca_di0 = Ca_di0,
      cell_n = k ! 20, cell_h = k ! 21, cell_s = k ! 22, cell_c = k ! 23,
      cell_q = k ! 24, cell_z = k ! 25\<rparr>"

text \<open>Lines 73-75: the returned tuple, with the two potassium rates of the soma given.\<close>

definition rate_tuple :: "conc_rates \<Rightarrow> gate_rates \<Rightarrow> real \<times> real \<Rightarrow> real list" where
  "rate_tuple r g kp =
     [dNadt_si r, dNadt_se r, dNadt_di r, dNadt_de r,
      fst kp, snd kp, dKdt_di r, dKdt_de r,
      dCldt_si r, dCldt_se r, dCldt_di r, dCldt_de r,
      dCadt_si r, dCadt_se r, dCadt_di r, dCadt_de r,
      dresdt_si r, dresdt_se r, dresdt_di r, dresdt_de r,
      dndt g, dhdt g, dsdt g, dcdt g, dqdt g, dzdt g]"

text \<open>
  Lines 60-75. Unpacking \<open>k\<close> into 26 names raises \<^verbatim>\<open>ValueError\<close> unless \<open>k\<close> has
  exactly 26 items. The stimulus branch rebinds the local names \<^verbatim>\<open>dKdt_si\<close> and
  \<^verbatim>\<open>dKdt_se\<close> to what the injector returns for them, with weight \<open>1.0\<close>.
\<close>

definition dkdt ::
  "EDPRmodel_class \<Rightarrow> injector \<Rightarrow> real \<Rightarrow> real \<Rightarrow> real \<Rightarrow> real \<Rightarrow> rate_fun" where
  "dkdt M somatic_injection alpha I_stim stim_start stim_end t k =
     (if length k \<noteq> 26 then Inl ValueError
      else
        let cell = my_cell alpha k;
            r = meth_dkdt M cell;
            g = meth_dmdt M cell;
            kp = (if t > stim_start \<and> t < stim_end
                  then somatic_injection cell (dKdt_si r) (dKdt_se r) 1 I_stim
                  else (dKdt_si r, dKdt_se r))
        in Inr (rate_tuple r g kp))"


text \<open>
  The rate function of a run with the stimulus disabled entirely: lines 60-75 without the
  branch of lines 70-71. It is the reference that the stimulated rate function is compared
  with.
\<close>

definition dkdt_nostim :: "EDPRmodel_class \<Rightarrow> real \<Rightarrow> rate_fun" where
  "dkdt_nostim M alpha t k =
     (if length k \<noteq> 26 then Inl ValueError
      else
        let cell = my_cell alpha k;
            r = meth_dkdt M cell;
            g = meth_dmdt M cell
        in Inr (rate_tuple r g (dKdt_si r, dKdt_se r)))"

subsection \<open>The driver \<^verbatim>\<open>solve_EDPRmodel\<close>\<close>

text \<open>Line 78: the cell of the initial conditions.\<close>

definition init_cell :: "real \<Rightarrow> EDPRmodel" where
  "init_cell alpha =
     \<lparr>cell_T = T,
      cell_Na_si = Na_si0, cell_Na_se = Na_se0, cell_Na_di = Na_di0, cell_Na_de = Na_de0,
      cell_K_si = K_si0, cell_K_se = K_se0, cell_K_di = K_di0, cell_K_de = K_de0,
      cell_Cl_si = Cl_si0, cell_Cl_se = Cl_se0, cell_Cl_di = Cl_di0, cell_Cl_de = Cl_de0,
      cell_Ca_si = Ca_si0, cell_Ca_se = Ca_se0, cell_Ca_di = Ca_di0, cell_Ca_de = Ca_de0,
      cell_X_si = X_si0, cell_X_se = X_se0, cell_X_di = X_di0, cell_X_de = X_de0,
      cell_alpha = alpha, cell_Ca_si0 = Ca_si0, cell_Ca_di0 = Ca_di0,
      cell_n = n0, cell_h = h0, cell_s = s0, cell_c = c0, cell_q = q0, cell_z = z0\<rparr>"

text \<open>
  Lines 77-98. The diagnostics of lines 80-86 are bound to local names that nothing reads.
  The integrator is called with \<^verbatim>\<open>max_step=1e-4\<close>; unpacking \<^verbatim>\<open>sol.y\<close> into 26 names
  raises \<^verbatim>\<open>ValueError\<close> unless it has 26 rows.
\<close>

definition solve_EDPRmodel ::
  "EDPRmodel_class \<Rightarrow> injector \<Rightarrow> integrator \<Rightarrow> real \<Rightarrow> real \<Rightarrow> real \<Rightarrow> real \<Rightarrow> real
     \<Rightarrow> py_error + OdeResult" where
  "solve_EDPRmodel M somatic_injection solve_ivp t_dur alpha I_stim stim_start stim_end =
     (let ic = init_cell alpha;
          (phi_si, phi_se, phi_di, phi_de, phi_sm, phi_dm) = meth_membrane_potentials M ic;
          (E_Na_s, E_Na_d, E_K_s, E_K_d, E_Cl_s, E_Cl_d, E_Ca_s, E_Ca_d) =
             meth_reversal_potentials M ic;
          q_si = meth_total_charge M ic
                   [cell_Na_si ic, cell_K_si ic, cell_Cl_si ic, cell_Ca_si ic, cell_X_si ic]
                   (attr_V_si M ic);
          q_se = meth_total_charge M ic
                   [cell_Na_se ic, cell_K_se ic, cell_Cl_se ic, cell_Ca_se ic, cell_X_se ic]
                   (attr_V_se M ic);
          q_di = meth_total_charge M ic
                   [cell_Na_di ic, cell_K_di ic, cell_Cl_di ic, cell_Ca_di ic, cell_X_di ic]
                   (attr_V_di M ic);
          q_de = meth_total_charge M ic
                   [cell_Na_de ic, cell_K_de ic, cell_Cl_de ic, cell_Ca_de ic, cell_X_de ic]
                   (attr_V_de M ic);
          t_span = (0, t_dur)
      in case solve_ivp (dkdt M somatic_injection alpha I_stim stim_start stim_end)
                t_span k0 (1 / 10 ^ 4) of
           Inl err \<Rightarrow> Inl err
         | Inr sol \<Rightarrow> if length (sol_y sol) \<noteq> 26 then Inl ValueError else Inr sol)"

text \<open>
  The driver of a run with the stimulus disabled entirely: the same function with
  \<open>dkdt_nostim\<close> as the rate function.
\<close>

definition solve_EDPRmodel_nostim ::
  "EDPRmodel_class \<Rightarrow> integrator \<Rightarrow> real \<Rightarrow> real \<Rightarrow> py_error + OdeResult" where
  "solve_EDPRmodel_nostim M solve_ivp t_dur alpha =
     (let ic = init_cell alpha;
          (phi_si, phi_se, phi_di, phi_de, phi_sm, phi_dm) = meth_membrane_potentials M ic;
          (E_Na_s, E_Na_d, E_K_s, E_K_d, E_Cl_s, E_Cl_d, E_Ca_s, E_Ca_d) =
             meth_reversal_potentials M ic;
          q_si = meth_total_charge M ic
                   [cell_Na_si ic, cell_K_si ic, cell_Cl_si ic, cell_Ca_si ic, cell_X_si ic]
                   (attr_V_si M ic);
          q_se = meth_total_charge M ic
                   [cell_Na_se ic, cell_K_se ic, cell_Cl_se ic, cell_Ca_se ic, cell_X_se ic]
                   (attr_V_se M ic);
          q_di = meth_total_charge M ic
                   [cell_Na_di ic, cell_K_di ic, cell_Cl_di ic, cell_Ca_di ic, cell_X_di ic]
                   (attr_V_di M ic);
          q_de = meth_total_charge M ic
                   [cell_Na_de ic, cell_K_de ic, cell_Cl_de ic, cell_Ca_de ic, cell_X_de ic]
                   (attr_V_de M ic);
          t_span = (0, t_dur)
      in case solve_ivp (dkdt_nostim M alpha) t_span k0 (1 / 10 ^ 4) of
           Inl err \<Rightarrow> Inl err
         | Inr sol \<Rightarrow> if length (sol_y sol) \<noteq> 26 then Inl ValueError else Inr sol)"

subsection \<open>Repeated evaluation\<close>




subsection \<open>The collaborators that the specification describes\<close>

text \<open>
  Modelled from the spec: \<^verbatim>\<open>somatic_injection_current\<close>, imported from a module that is
  not among the sources. The specification describes it as a pure function that perturbs
  the potassium rate pair by the injected current, "added to one compartment's K rate and
  subtracted, scaled, from its paired compartment", with a weight, such that the two
  contributions carry a net charge rate consistent with the magnitude. A current \<open>I\<close> is
  the concentration rate \<open>I / (V * Z * F)\<close> in a compartment of volume \<open>V\<close>; the volumes
  and Faraday's constant are attributes of the model object.
\<close>

definition somatic_injection_current :: "EDPRmodel_class \<Rightarrow> injector" where
  "somatic_injection_current M neuron dkdt_si dkdt_se Z I_stim =
     (dkdt_si + I_stim / (attr_V_si M neuron * Z * attr_F M neuron),
      dkdt_se - I_stim / (attr_V_se M neuron * Z * attr_F M neuron))"

text \<open>
  Modelled from the spec: the method \<^verbatim>\<open>total_charge(concentration_list, volume)\<close> of the
  model class, which is not among the sources: the "weighted sum of species
  concentrations (with signed valence) times volume times Faraday's constant". The list
  is in the order of lines 83-86: Na, K, Cl, Ca, X. The valence of X is \<open>-1\<close>, the sign
  with which lines 47-50 solve for it.
\<close>

definition valences :: "real list" where
  "valences = [1, 1, - 1, 2, - 1]"

definition total_charge :: "real \<Rightarrow> real list \<Rightarrow> real \<Rightarrow> real" where
  "total_charge F concs V = F * sum_list (map2 (*) valences concs) * V"

subsection \<open>A model class and an integrator for closed examples\<close>

text \<open>
  The theorems hold for every model class and every integrator. Closed examples need
  one of each: a class whose rates are linear in the snapshot, with the compartment
  volumes and Faraday's constant that appear in lines 44-45, and an integrator that takes
  a single forward Euler step across the time span.
\<close>

definition example_rates :: "EDPRmodel \<Rightarrow> conc_rates" where
  "example_rates c =
     \<lparr>dNadt_si = cell_alpha c * cell_Na_si c, dNadt_se = cell_alpha c * cell_Na_se c,
      dNadt_di = cell_alpha c * cell_Na_di c, dNadt_de = cell_alpha c * cell_Na_de c,
      dKdt_si = cell_alpha c * cell_K_si c, dKdt_se = cell_alpha c * cell_K_se c,
      dKdt_di = cell_alpha c * cell_K_di c, dKdt_de = cell_alpha c * cell_K_de c,
      dCldt_si = cell_alpha c * cell_Cl_si c, dCldt_se = cell_alpha c * cell_Cl_se c,
      dCldt_di = cell_alpha c * cell_Cl_di c, dCldt_de = cell_alpha c * cell_Cl_de c,
      dCadt_si = cell_alpha c * cell_Ca_si c, dCadt_se = cell_alpha c * cell_Ca_se c,
      dCadt_di = cell_alpha c * cell_Ca_di c, dCadt_de = cell_alpha c * cell_Ca_de c,
      dresdt_si = cell_alpha c * cell_X_si c, dresdt_se = cell_alpha c * cell_X_se c,
      dresdt_di = cell_alpha c * cell_X_di c, dresdt_de = cell_alpha c * cell_X_de c\<rparr>"

definition example_gates :: "EDPRmodel \<Rightarrow> gate_rates" where
  "example_gates c =
     \<lparr>dndt = - cell_n c, dhdt = - cell_h c, dsdt = - cell_s c,
      dcdt = - cell_c c, dqdt = - cell_q c, dzdt = - cell_z c\<rparr>"

definition example_class :: EDPRmodel_class where
  "example_class =
     \<lparr>meth_dkdt = example_rates,
      meth_dmdt = example_gates,
      meth_membrane_potentials = (\<lambda>c. (0, 0, 0, 0, 0, 0)),
      meth_reversal_potentials = (\<lambda>c. (0, 0, 0, 0, 0, 0, 0, 0)),
      meth_total_charge = (\<lambda>c. total_charge 96480),
      attr_V_si = (\<lambda>c. 1437 / 10 ^ 18),
      attr_V_se = (\<lambda>c. 7185 / 10 ^ 19),
      attr_V_di = (\<lambda>c. 1437 / 10 ^ 18),
      attr_V_de = (\<lambda>c. 7185 / 10 ^ 19),
      attr_F = (\<lambda>c. 96480)\<rparr>"

text \<open>
  A second class, which agrees with the first only on snapshots whose calcium baselines
  are \<open>0.01\<close>.
\<close>

definition baseline_probe_class :: EDPRmodel_class where
  "baseline_probe_class =
     example_class\<lparr>meth_dkdt :=
       (\<lambda>c. if cell_Ca_si0 c = 1 / 100 \<and> cell_Ca_di0 c = 1 / 100 then example_rates c
            else example_rates (c\<lparr>cell_alpha := 0\<rparr>))\<rparr>"

definition euler_step :: integrator where
  "euler_step f t_span y0 max_step =
     (case f (fst t_span) y0 of
        Inl err \<Rightarrow> Inl err
      | Inr d \<Rightarrow>
          Inr \<lparr>sol_t = [fst t_span, snd t_span],
               sol_y = map2 (\<lambda>y r. [y, y + (snd t_span - fst t_span) * r]) y0 d\<rparr>)"

subsection \<open>The order of the state vector\<close>

text \<open>
  The order that the state vector is documented to have: Na, K, Cl, Ca and X, each in the
  compartments si, se, di, de, then the gates n, h, s, c, q, z; and, position by position,
  the rate that belongs to each entry.
\<close>

definition state_order :: "(EDPRmodel \<Rightarrow> real) list" where
  "state_order =
     [cell_Na_si, cell_Na_se, cell_Na_di, cell_Na_de,
      cell_K_si, cell_K_se, cell_K_di, cell_K_de,
      cell_Cl_si, cell_Cl_se, cell_Cl_di, cell_Cl_de,
      cell_Ca_si, cell_Ca_se, cell_Ca_di, cell_Ca_de,
      cell_X_si, cell_X_se, cell_X_di, cell_X_de,
      cell_n, cell_h, cell_s, cell_c, cell_q, cell_z]"

definition rate_order :: "(conc_rates \<times> gate_rates \<Rightarrow> real) list" where
  "rate_order =
     [dNadt_si \<circ> fst, dNadt_se \<circ> fst, dNadt_di \<circ> fst, dNadt_de \<circ> fst,
      dKdt_si \<circ> fst, dKdt_se \<circ> fst, dKdt_di \<circ> fst, dKdt_de \<circ> fst,
      dCldt_si \<circ> fst, dCldt_se \<circ> fst, dCldt_di \<circ> fst, dCldt_de \<circ> fst,
      dCadt_si \<circ> fst, dCadt_se \<circ> fst, dCadt_di \<circ> fst, dCadt_de \<circ> fst,
      dresdt_si \<circ> fst, dresdt_se \<circ> fst, dresdt_di \<circ> fst, dresdt_de \<circ> fst,
      dndt \<circ> snd, dhdt \<circ> snd, dsdt \<circ> snd, dcdt \<circ> snd, dqdt \<circ> snd, dzdt \<circ> snd]"

subsection \<open>Auxiliary facts\<close>

lemma all_less_26:
  "(\<forall>i<26::nat. P i) \<longleftrightarrow>
     P 0 \<and> P 1 \<and> P 2 \<and> P 3 \<and> P 4 \<and> P 5 \<and> P 6 \<and> P 7 \<and> P 8 \<and> P 9 \<and> P 10 \<and> P 11 \<and> P 12 \<and>
     P 13 \<and> P 14 \<and> P 15 \<and> P 16 \<and> P 17 \<and> P 18 \<and> P 19 \<and> P 20 \<and> P 21 \<and> P 22 \<and> P 23 \<and>
     P 24 \<and> P 25"
proof -
  have "{..<26::nat} = set [0..<26]"
    by auto
  also have "[0..<26] = [0::nat, 1, 2, 3, 4, 5, 6, 7, 8, 9, 10, 11, 12, 13, 14, 15, 16, 17,
      18, 19, 20, 21, 22, 23, 24, 25]"
    by (simp add: upt_rec)
  finally have "{..<26::nat} = set [0, 1, 2, 3, 4, 5, 6, 7, 8, 9, 10, 11, 12, 13, 14, 15, 16, 17,
      18, 19, 20, 21, 22, 23, 24, 25]" .
  moreover have "(\<forall>i<26::nat. P i) \<longleftrightarrow> (\<forall>i\<in>{..<26}. P i)"
    by auto
  ultimately show ?thesis
    by simp
qed

lemma length_rate_tuple: "length (rate_tuple r g kp) = 26"
  by (simp add: rate_tuple_def)

lemma rate_tuple_soma_K:
  "rate_tuple r g kp ! 4 = fst kp" "rate_tuple r g kp ! 5 = snd kp"
  by (simp_all add: rate_tuple_def)

lemma rate_tuple_frame:
  assumes "i < 26" "i \<noteq> 4" "i \<noteq> 5"
  shows "rate_tuple r g kp ! i = rate_tuple r g kp' ! i"
proof -
  have "\<forall>i<26. i \<noteq> 4 \<and> i \<noteq> 5 \<longrightarrow> rate_tuple r g kp ! i = rate_tuple r g kp' ! i"
    unfolding all_less_26 by (simp add: rate_tuple_def)
  with assms show ?thesis by blast
qed

lemma rate_tuple_rate_order:
  "rate_tuple r g (dKdt_si r, dKdt_se r) = map (\<lambda>f. f (r, g)) rate_order"
  by (simp add: rate_tuple_def rate_order_def)

lemma dkdt_wrong_length:
  "length k \<noteq> 26 \<Longrightarrow> dkdt M inject alpha I_stim stim_start stim_end t k = Inl ValueError"
  by (simp add: dkdt_def)

lemma dkdt_outside_window:
  "\<not> (stim_start < t \<and> t < stim_end) \<Longrightarrow>
     dkdt M inject alpha I_stim stim_start stim_end t k = dkdt_nostim M alpha t k"
  by (auto simp add: dkdt_def dkdt_nostim_def Let_def)

lemma dkdt_inside_window:
  "length k = 26 \<Longrightarrow> stim_start < t \<Longrightarrow> t < stim_end \<Longrightarrow>
     dkdt M inject alpha I_stim stim_start stim_end t k =
       Inr (rate_tuple (meth_dkdt M (my_cell alpha k)) (meth_dmdt M (my_cell alpha k))
              (inject (my_cell alpha k) (dKdt_si (meth_dkdt M (my_cell alpha k)))
                 (dKdt_se (meth_dkdt M (my_cell alpha k))) 1 I_stim))"
  by (simp add: dkdt_def Let_def)

lemma dkdt_nostim_value:
  "length k = 26 \<Longrightarrow>
     dkdt_nostim M alpha t k =
       Inr (rate_tuple (meth_dkdt M (my_cell alpha k)) (meth_dmdt M (my_cell alpha k))
              (dKdt_si (meth_dkdt M (my_cell alpha k)), dKdt_se (meth_dkdt M (my_cell alpha k))))"
  by (simp add: dkdt_nostim_def Let_def)

lemma somatic_injection_current_zero:
  "somatic_injection_current M neuron a b Z 0 = (a, b)"
  by (simp add: somatic_injection_current_def)

lemma solve_EDPRmodel_unfold:
  "solve_EDPRmodel M inject ivp t_dur alpha I_stim stim_start stim_end =
     (case ivp (dkdt M inject alpha I_stim stim_start stim_end) (0, t_dur) k0 (1 / 10 ^ 4) of
        Inl err \<Rightarrow> Inl err
      | Inr sol \<Rightarrow> if length (sol_y sol) \<noteq> 26 then Inl ValueError else Inr sol)"
  by (simp add: solve_EDPRmodel_def Let_def split: prod.splits)

lemma solve_EDPRmodel_nostim_unfold:
  "solve_EDPRmodel_nostim M ivp t_dur alpha =
     (case ivp (dkdt_nostim M alpha) (0, t_dur) k0 (1 / 10 ^ 4) of
        Inl err \<Rightarrow> Inl err
      | Inr sol \<Rightarrow> if length (sol_y sol) \<noteq> 26 then Inl ValueError else Inr sol)"
  by (simp add: solve_EDPRmodel_nostim_def Let_def split: prod.splits)

lemma length_k0: "length k0 = 26"
  by (simp add: k0_def)



subsection \<open>Verified properties\<close>

text \<open>
  C7. Every snapshot that a rate evaluation builds carries the calcium baselines
  \<open>Ca_si0 = 0.01\<close> and \<open>Ca_di0 = 0.01\<close> of the enclosing function, whatever the time, the
  state vector (in particular its calcium entries, items 12 to 15) and the coupling
  strength are, and so does the initial cell. A rate evaluation therefore never consults
  the model with other baselines: two model classes whose rates agree on the snapshots
  with these baselines give the same rate function.
\<close>

theorem dkdt_calcium_baselines_fixed:
  "cell_Ca_si0 (my_cell alpha k) = 1 / 100 \<and> cell_Ca_di0 (my_cell alpha k) = 1 / 100
   \<and> cell_Ca_si0 (my_cell alpha (k[12 := a, 13 := b, 14 := c, 15 := d])) = cell_Ca_si0 (my_cell alpha k)
   \<and> cell_Ca_di0 (my_cell alpha (k[12 := a, 13 := b, 14 := c, 15 := d])) = cell_Ca_di0 (my_cell alpha k)
   \<and> cell_Ca_si0 (init_cell alpha) = 1 / 100 \<and> cell_Ca_di0 (init_cell alpha) = 1 / 100
   \<and> ((\<forall>cell. cell_Ca_si0 cell = 1 / 100 \<and> cell_Ca_di0 cell = 1 / 100 \<longrightarrow>
              meth_dkdt M cell = meth_dkdt M' cell \<and> meth_dmdt M cell = meth_dmdt M' cell)
        \<longrightarrow> dkdt M inject alpha I_stim stim_start stim_end t k
              = dkdt M' inject alpha I_stim stim_start stim_end t k)"
proof -
  have snap: "cell_Ca_si0 (my_cell alpha k') = 1 / 100 \<and> cell_Ca_di0 (my_cell alpha k') = 1 / 100"
    for k'
    by (simp add: my_cell_def Ca_si0_def Ca_di0_def)
  have init: "cell_Ca_si0 (init_cell alpha) = 1 / 100 \<and> cell_Ca_di0 (init_cell alpha) = 1 / 100"
    by (simp add: init_cell_def Ca_si0_def Ca_di0_def)
  have cong: "dkdt M inject alpha I_stim stim_start stim_end t k
              = dkdt M' inject alpha I_stim stim_start stim_end t k"
    if agree: "\<forall>cell. cell_Ca_si0 cell = 1 / 100 \<and> cell_Ca_di0 cell = 1 / 100 \<longrightarrow>
              meth_dkdt M cell = meth_dkdt M' cell \<and> meth_dmdt M cell = meth_dmdt M' cell"
  proof -
    from agree snap have "meth_dkdt M (my_cell alpha k) = meth_dkdt M' (my_cell alpha k)"
      and "meth_dmdt M (my_cell alpha k) = meth_dmdt M' (my_cell alpha k)"
      by blast+
    then show ?thesis
      by (simp add: dkdt_def Let_def)
  qed
  from snap [of k] snap [of "k[12 := a, 13 := b, 14 := c, 15 := d]"] init cong
  show ?thesis by simp
qed

theorem dkdt_calcium_baselines_fixed_witness:
  "dkdt example_class (somatic_injection_current example_class) 2 (28 / 10 ^ 12) 10 20 15 k0
     = dkdt baseline_probe_class (somatic_injection_current example_class) 2 (28 / 10 ^ 12) 10 20 15 k0
   \<and> cell_Ca_si0 (my_cell 2 k0) = 1 / 100"
proof -
  have "\<forall>cell. cell_Ca_si0 cell = 1 / 100 \<and> cell_Ca_di0 cell = 1 / 100 \<longrightarrow>
          meth_dkdt example_class cell = meth_dkdt baseline_probe_class cell
          \<and> meth_dmdt example_class cell = meth_dmdt baseline_probe_class cell"
    by (simp add: baseline_probe_class_def example_class_def)
  with dkdt_calcium_baselines_fixed [of 2 k0 0 0 0 0 example_class baseline_probe_class
      "somatic_injection_current example_class" "28 / 10 ^ 12" 10 20 15]
  show ?thesis by blast
qed

text \<open>
  C1. For a state vector of 26 items, the rate function applies the stimulus exactly when
  \<open>stim_start < t < stim_end\<close>: inside the window the result is the rate tuple with the
  injector's pair, so some injector makes it differ from the unstimulated evaluation;
  outside the window no injector can. At \<open>t = stim_start\<close> and at \<open>t = stim_end\<close> the
  result is the unstimulated one, for every injector.
\<close>

theorem dkdt_stimulus_window:
  assumes "length k = 26"
  shows "((\<exists>inject. dkdt M inject alpha I_stim stim_start stim_end t k \<noteq> dkdt_nostim M alpha t k)
            \<longleftrightarrow> stim_start < t \<and> t < stim_end)
       \<and> (stim_start < t \<and> t < stim_end \<longrightarrow>
            (\<forall>inject. dkdt M inject alpha I_stim stim_start stim_end t k =
               Inr (rate_tuple (meth_dkdt M (my_cell alpha k)) (meth_dmdt M (my_cell alpha k))
                      (inject (my_cell alpha k) (dKdt_si (meth_dkdt M (my_cell alpha k)))
                         (dKdt_se (meth_dkdt M (my_cell alpha k))) 1 I_stim))))
       \<and> (\<forall>inject. dkdt M inject alpha I_stim stim_start stim_end stim_start k
                     = dkdt_nostim M alpha stim_start k)
       \<and> (\<forall>inject. dkdt M inject alpha I_stim stim_start stim_end stim_end k
                     = dkdt_nostim M alpha stim_end k)"
proof -
  let ?r = "meth_dkdt M (my_cell alpha k)"
  let ?g = "meth_dmdt M (my_cell alpha k)"
  let ?bump = "(\<lambda>c a b w m. (a + 1, b)) :: injector"
  have inside: "\<exists>inject. dkdt M inject alpha I_stim stim_start stim_end t k \<noteq> dkdt_nostim M alpha t k"
    if w: "stim_start < t \<and> t < stim_end"
  proof
    have "rate_tuple ?r ?g (dKdt_si ?r + 1, dKdt_se ?r) ! 4
            \<noteq> rate_tuple ?r ?g (dKdt_si ?r, dKdt_se ?r) ! 4"
      by (simp add: rate_tuple_soma_K)
    then have "rate_tuple ?r ?g (dKdt_si ?r + 1, dKdt_se ?r)
                 \<noteq> rate_tuple ?r ?g (dKdt_si ?r, dKdt_se ?r)"
      by metis
    then show "dkdt M ?bump alpha I_stim stim_start stim_end t k \<noteq> dkdt_nostim M alpha t k"
      using assms w by (simp add: dkdt_inside_window dkdt_nostim_value)
  qed
  have outside: "\<not> (stim_start < t \<and> t < stim_end)"
    if "\<forall>inject. dkdt M inject alpha I_stim stim_start stim_end t k = dkdt_nostim M alpha t k"
    using that inside by blast
  have iff: "(\<exists>inject. dkdt M inject alpha I_stim stim_start stim_end t k \<noteq> dkdt_nostim M alpha t k)
               \<longleftrightarrow> stim_start < t \<and> t < stim_end"
    using inside dkdt_outside_window [of stim_start t stim_end M _ alpha I_stim k] by blast
  have inwin: "stim_start < t \<and> t < stim_end \<longrightarrow>
            (\<forall>inject. dkdt M inject alpha I_stim stim_start stim_end t k =
               Inr (rate_tuple ?r ?g (inject (my_cell alpha k) (dKdt_si ?r) (dKdt_se ?r) 1 I_stim)))"
    using assms by (simp add: dkdt_inside_window)
  have onset: "\<forall>inject. dkdt M inject alpha I_stim stim_start stim_end stim_start k
                 = dkdt_nostim M alpha stim_start k"
    by (simp add: dkdt_outside_window)
  have offset: "\<forall>inject. dkdt M inject alpha I_stim stim_start stim_end stim_end k
                 = dkdt_nostim M alpha stim_end k"
    by (simp add: dkdt_outside_window)
  from iff inwin onset offset show ?thesis by blast
qed

theorem dkdt_stimulus_window_witness:
  "length k0 = 26 \<and>
   (\<exists>inject. dkdt example_class inject 2 (28 / 10 ^ 12) 10 20 15 k0 \<noteq> dkdt_nostim example_class 2 15 k0) \<and>
   dkdt example_class (somatic_injection_current example_class) 2 (28 / 10 ^ 12) 10 20 10 k0
     = dkdt_nostim example_class 2 10 k0 \<and>
   dkdt example_class (somatic_injection_current example_class) 2 (28 / 10 ^ 12) 10 20 20 k0
     = dkdt_nostim example_class 2 20 k0"
proof -
  note w = dkdt_stimulus_window [OF length_k0, of example_class 2 "28 / 10 ^ 12" 10 20 15]
  from w have "(\<exists>inject. dkdt example_class inject 2 (28 / 10 ^ 12) 10 20 15 k0
                  \<noteq> dkdt_nostim example_class 2 15 k0) \<longleftrightarrow> (10::real) < 15 \<and> (15::real) < 20"
    by (rule conjunct1)
  then have inside: "\<exists>inject. dkdt example_class inject 2 (28 / 10 ^ 12) 10 20 15 k0
                  \<noteq> dkdt_nostim example_class 2 15 k0"
    by simp
  from w have
    "\<forall>inject. dkdt example_class inject 2 (28 / 10 ^ 12) 10 20 10 k0 = dkdt_nostim example_class 2 10 k0"
    "\<forall>inject. dkdt example_class inject 2 (28 / 10 ^ 12) 10 20 20 k0 = dkdt_nostim example_class 2 20 k0"
    by blast+
  with inside length_k0 show ?thesis
    by blast
qed

text \<open>
  C2, as the code has it. Inside the window, for a state vector of 26 items, the two
  rates handed to the injector are those of \<open>K_si\<close> and \<open>K_se\<close> (items 4 and 5), with
  weight 1 and magnitude \<open>I_stim\<close>, and what it returns becomes items 4 and 5 of the
  result; the rate of \<open>K_de\<close> (item 7) is the one the model computed.
\<close>

theorem dkdt_injection_pair:
  assumes "length k = 26" and "stim_start < t" and "t < stim_end"
  shows "\<exists>out. dkdt M inject alpha I_stim stim_start stim_end t k = Inr out
           \<and> (out ! 4, out ! 5) =
               inject (my_cell alpha k) (dKdt_si (meth_dkdt M (my_cell alpha k)))
                 (dKdt_se (meth_dkdt M (my_cell alpha k))) 1 I_stim
           \<and> out ! 7 = dKdt_de (meth_dkdt M (my_cell alpha k))
           \<and> cell_K_si (my_cell alpha k) = k ! 4
           \<and> cell_K_se (my_cell alpha k) = k ! 5
           \<and> cell_K_de (my_cell alpha k) = k ! 7"
proof -
  have "rate_tuple r g kp ! 7 = dKdt_de r" for r g kp
    by (simp add: rate_tuple_def)
  moreover have "cell_K_si (my_cell alpha k) = k ! 4 \<and> cell_K_se (my_cell alpha k) = k ! 5
      \<and> cell_K_de (my_cell alpha k) = k ! 7"
    by (simp add: my_cell_def)
  ultimately show ?thesis
    using assms by (simp add: dkdt_inside_window rate_tuple_soma_K)
qed

theorem dkdt_injection_pair_witness:
  "length k0 = 26 \<and> (10::real) < 15 \<and> (15::real) < 20 \<and>
   (\<exists>out. dkdt example_class (somatic_injection_current example_class) 2 (28 / 10 ^ 12) 10 20 15 k0
             = Inr out
           \<and> out ! 7 = dKdt_de (meth_dkdt example_class (my_cell 2 k0)))"
  using dkdt_injection_pair [OF length_k0, of 10 15 20 example_class
      "somatic_injection_current example_class" 2 "28 / 10 ^ 12"]
  by (auto simp add: length_k0)

text \<open>
  C2, as the claim has it, fails: in the example run (\<open>alpha = 2\<close>, \<open>I_stim = 28e-12\<close>,
  window from 10 to 20), at \<open>t = 15\<close> and the initial state vector, the rate of \<open>K_de\<close>
  (item 7) is the unstimulated one while the rate of \<open>K_se\<close> (item 5) is not.
\<close>

theorem dkdt_injection_pair_counterexample:
  "projr (dkdt example_class (somatic_injection_current example_class) 2 (28 / 10 ^ 12) 10 20 15 k0) ! 7
     = projr (dkdt_nostim example_class 2 15 k0) ! 7
   \<and> projr (dkdt example_class (somatic_injection_current example_class) 2 (28 / 10 ^ 12) 10 20 15 k0) ! 5
     \<noteq> projr (dkdt_nostim example_class 2 15 k0) ! 5"
  by (simp add: dkdt_inside_window dkdt_nostim_value length_k0 rate_tuple_soma_K
      somatic_injection_current_def example_class_def)
    (simp add: rate_tuple_def)

text \<open>
  C3. The impermeant charge of each compartment is solved from the other four species and
  the resting residual, as lines 47-50 say; hence the signed-valence sum of each
  intracellular compartment is \<open>res_i\<close> and of each extracellular one \<open>- res_e\<close>, and the
  total charge of the initial cell's compartments is Faraday's constant times that
  residual times the volume. With the volumes and the constant of lines 44-45 the somatic
  charges are \<open>-68e-3 * 3e-2 * 616e-12\<close> inside and its opposite outside.
\<close>

theorem initial_impermeant_charge:
  "X_si0 = Na_si0 + K_si0 - Cl_si0 + 2 * Ca_si0 - res_i
   \<and> X_di0 = Na_di0 + K_di0 - Cl_di0 + 2 * Ca_di0 - res_i
   \<and> X_se0 = Na_se0 + K_se0 - Cl_se0 + 2 * Ca_se0 + res_e
   \<and> X_de0 = Na_de0 + K_de0 - Cl_de0 + 2 * Ca_de0 + res_e
   \<and> Na_si0 + K_si0 - Cl_si0 + 2 * Ca_si0 - X_si0 = res_i
   \<and> Na_di0 + K_di0 - Cl_di0 + 2 * Ca_di0 - X_di0 = res_i
   \<and> Na_se0 + K_se0 - Cl_se0 + 2 * Ca_se0 - X_se0 = - res_e
   \<and> Na_de0 + K_de0 - Cl_de0 + 2 * Ca_de0 - X_de0 = - res_e
   \<and> total_charge F [cell_Na_si (init_cell alpha), cell_K_si (init_cell alpha),
        cell_Cl_si (init_cell alpha), cell_Ca_si (init_cell alpha), cell_X_si (init_cell alpha)] V
       = F * res_i * V
   \<and> total_charge F [cell_Na_di (init_cell alpha), cell_K_di (init_cell alpha),
        cell_Cl_di (init_cell alpha), cell_Ca_di (init_cell alpha), cell_X_di (init_cell alpha)] V
       = F * res_i * V
   \<and> total_charge F [cell_Na_se (init_cell alpha), cell_K_se (init_cell alpha),
        cell_Cl_se (init_cell alpha), cell_Ca_se (init_cell alpha), cell_X_se (init_cell alpha)] V
       = F * (- res_e) * V
   \<and> total_charge F [cell_Na_de (init_cell alpha), cell_K_de (init_cell alpha),
        cell_Cl_de (init_cell alpha), cell_Ca_de (init_cell alpha), cell_X_de (init_cell alpha)] V
       = F * (- res_e) * V
   \<and> total_charge 96480 [Na_si0, K_si0, Cl_si0, Ca_si0, X_si0] (1437 / 10 ^ 18)
       = - (68 / 10 ^ 3) * (3 / 10 ^ 2) * (616 / 10 ^ 12)
   \<and> total_charge 96480 [Na_se0, K_se0, Cl_se0, Ca_se0, X_se0] (7185 / 10 ^ 19)
       = (68 / 10 ^ 3) * (3 / 10 ^ 2) * (616 / 10 ^ 12)"
proof -
  have sums: "Na_si0 + K_si0 - Cl_si0 + 2 * Ca_si0 - X_si0 = res_i"
    "Na_di0 + K_di0 - Cl_di0 + 2 * Ca_di0 - X_di0 = res_i"
    "Na_se0 + K_se0 - Cl_se0 + 2 * Ca_se0 - X_se0 = - res_e"
    "Na_de0 + K_de0 - Cl_de0 + 2 * Ca_de0 - X_de0 = - res_e"
    by (simp_all add: X_si0_def X_di0_def X_se0_def X_de0_def)
  have tc: "total_charge G [a, b, c, d, x] W = G * (a + b - c + 2 * d - x) * W" for G a b c d x W
    by (simp add: total_charge_def valences_def)
  have q: "total_charge F [cell_Na_si (init_cell alpha), cell_K_si (init_cell alpha),
        cell_Cl_si (init_cell alpha), cell_Ca_si (init_cell alpha), cell_X_si (init_cell alpha)] V
       = F * res_i * V"
    "total_charge F [cell_Na_di (init_cell alpha), cell_K_di (init_cell alpha),
        cell_Cl_di (init_cell alpha), cell_Ca_di (init_cell alpha), cell_X_di (init_cell alpha)] V
       = F * res_i * V"
    "total_charge F [cell_Na_se (init_cell alpha), cell_K_se (init_cell alpha),
        cell_Cl_se (init_cell alpha), cell_Ca_se (init_cell alpha), cell_X_se (init_cell alpha)] V
       = F * (- res_e) * V"
    "total_charge F [cell_Na_de (init_cell alpha), cell_K_de (init_cell alpha),
        cell_Cl_de (init_cell alpha), cell_Ca_de (init_cell alpha), cell_X_de (init_cell alpha)] V
       = F * (- res_e) * V"
    unfolding tc by (simp_all only: init_cell_def EDPRmodel.simps sums)
  have num: "total_charge 96480 [Na_si0, K_si0, Cl_si0, Ca_si0, X_si0] (1437 / 10 ^ 18)
       = - (68 / 10 ^ 3) * (3 / 10 ^ 2) * (616 / 10 ^ 12)"
    "total_charge 96480 [Na_se0, K_se0, Cl_se0, Ca_se0, X_se0] (7185 / 10 ^ 19)
       = (68 / 10 ^ 3) * (3 / 10 ^ 2) * (616 / 10 ^ 12)"
    unfolding tc sums by (simp_all add: res_i_def res_e_def)
  show ?thesis
    using sums q num by (simp add: X_si0_def X_di0_def X_se0_def X_de0_def)
qed

text \<open>
  C4. With \<open>stim_start = stim_end\<close>, or with a stimulus magnitude of 0, the rate function
  is the one of a run with the stimulus disabled, at every time and state vector, and so
  is what the driver returns, for every integrator. With an empty window this holds for
  every injector; with a zero magnitude it is a property of the injector.
\<close>

theorem dkdt_disabled_stimulus:
  assumes "stim_start = stim_end \<or> I_stim = 0"
  shows "dkdt M (somatic_injection_current M) alpha I_stim stim_start stim_end t k
           = dkdt_nostim M alpha t k
       \<and> solve_EDPRmodel M (somatic_injection_current M) ivp t_dur alpha I_stim stim_start stim_end
           = solve_EDPRmodel_nostim M ivp t_dur alpha
       \<and> (stim_start = stim_end \<longrightarrow>
            (\<forall>inject. dkdt M inject alpha I_stim stim_start stim_end t k = dkdt_nostim M alpha t k))"
proof -
  have pointwise: "dkdt M (somatic_injection_current M) alpha I_stim stim_start stim_end t' k'
           = dkdt_nostim M alpha t' k'" for t' k'
  proof (cases "stim_start = stim_end")
    case True
    then show ?thesis by (simp add: dkdt_outside_window)
  next
    case False
    with assms have "I_stim = 0" by simp
    then show ?thesis
      by (simp add: dkdt_def dkdt_nostim_def Let_def somatic_injection_current_zero)
  qed
  then have "dkdt M (somatic_injection_current M) alpha I_stim stim_start stim_end
               = dkdt_nostim M alpha"
    by (intro ext)
  then have "solve_EDPRmodel M (somatic_injection_current M) ivp t_dur alpha I_stim stim_start stim_end
           = solve_EDPRmodel_nostim M ivp t_dur alpha"
    by (simp add: solve_EDPRmodel_unfold solve_EDPRmodel_nostim_unfold)
  moreover have "stim_start = stim_end \<longrightarrow>
            (\<forall>inject. dkdt M inject alpha I_stim stim_start stim_end t k = dkdt_nostim M alpha t k)"
    by (simp add: dkdt_outside_window)
  ultimately show ?thesis
    using pointwise by blast
qed

theorem dkdt_disabled_stimulus_witness:
  "dkdt example_class (somatic_injection_current example_class) 2 0 10 20 15 k0
     = dkdt_nostim example_class 2 15 k0
   \<and> solve_EDPRmodel example_class (somatic_injection_current example_class) euler_step 30 2 0 10 20
     = solve_EDPRmodel_nostim example_class euler_step 30 2
   \<and> dkdt example_class (somatic_injection_current example_class) 2 (28 / 10 ^ 12) 10 10 10 k0
     = dkdt_nostim example_class 2 10 k0"
  using dkdt_disabled_stimulus [of 10 20 0 example_class 2 15 k0 euler_step 30]
    dkdt_disabled_stimulus [of 10 10 "28 / 10 ^ 12" example_class 2 10 k0 euler_step 30]
  by simp

text \<open>
  C5. Inside the window, for a state vector of 26 items, the stimulated and the
  unstimulated evaluation both return 26 rates, and these agree at every position other
  than 4 and 5, the rates of the somatic intracellular and the somatic extracellular
  potassium.
\<close>

theorem dkdt_stimulus_frame:
  assumes "length k = 26" and "stim_start < t" and "t < stim_end"
  shows "\<exists>out base. dkdt M inject alpha I_stim stim_start stim_end t k = Inr out
           \<and> dkdt_nostim M alpha t k = Inr base
           \<and> length out = 26 \<and> length base = 26
           \<and> (\<forall>i<26. i \<noteq> 4 \<and> i \<noteq> 5 \<longrightarrow> out ! i = base ! i)"
  using assms
  by (simp add: dkdt_inside_window dkdt_nostim_value length_rate_tuple)
    (blast intro: rate_tuple_frame)

theorem dkdt_stimulus_frame_witness:
  "length k0 = 26 \<and> (10::real) < 15 \<and> (15::real) < 20 \<and>
   (\<exists>out base. dkdt example_class (somatic_injection_current example_class) 2 (28 / 10 ^ 12) 10 20 15 k0
                  = Inr out
              \<and> dkdt_nostim example_class 2 15 k0 = Inr base
              \<and> out ! 7 = base ! 7 \<and> out ! 0 = base ! 0 \<and> out ! 25 = base ! 25)"
proof -
  obtain out base where
    "dkdt example_class (somatic_injection_current example_class) 2 (28 / 10 ^ 12) 10 20 15 k0 = Inr out"
    "dkdt_nostim example_class 2 15 k0 = Inr base"
    "\<forall>i<26. i \<noteq> 4 \<and> i \<noteq> 5 \<longrightarrow> out ! i = base ! i"
    using dkdt_stimulus_frame [OF length_k0, of 10 15 20 example_class
        "somatic_injection_current example_class" 2 "28 / 10 ^ 12"]
    by auto
  then show ?thesis
    by (auto simp add: length_k0)
qed

text \<open>
  C6. For a state vector of 26 items, item \<open>i\<close> of the input is the field of the snapshot
  that the documented order names at position \<open>i\<close>, and item \<open>i\<close> of the result is the
  rate that belongs to that field: without a stimulus the result is the list of the
  model's rates in that order, and with one only items 4 and 5 are replaced, by the
  injector's values for the rates of those same two fields.
\<close>

theorem dkdt_positional_alignment:
  assumes "length k = 26"
  shows "length state_order = 26 \<and> length rate_order = 26
       \<and> (\<forall>i<26. (state_order ! i) (my_cell alpha k) = k ! i)
       \<and> dkdt_nostim M alpha t k =
           Inr (map (\<lambda>f. f (meth_dkdt M (my_cell alpha k), meth_dmdt M (my_cell alpha k))) rate_order)
       \<and> (\<exists>out. dkdt M inject alpha I_stim stim_start stim_end t k = Inr out \<and> length out = 26
            \<and> (\<forall>i<26. i \<noteq> 4 \<and> i \<noteq> 5 \<longrightarrow>
                 out ! i = (rate_order ! i) (meth_dkdt M (my_cell alpha k), meth_dmdt M (my_cell alpha k)))
            \<and> (out ! 4, out ! 5) =
                 (if stim_start < t \<and> t < stim_end
                  then inject (my_cell alpha k)
                         ((rate_order ! 4) (meth_dkdt M (my_cell alpha k), meth_dmdt M (my_cell alpha k)))
                         ((rate_order ! 5) (meth_dkdt M (my_cell alpha k), meth_dmdt M (my_cell alpha k)))
                         1 I_stim
                  else ((rate_order ! 4) (meth_dkdt M (my_cell alpha k), meth_dmdt M (my_cell alpha k)),
                        (rate_order ! 5) (meth_dkdt M (my_cell alpha k), meth_dmdt M (my_cell alpha k)))))"
proof -
  let ?r = "meth_dkdt M (my_cell alpha k)"
  let ?g = "meth_dmdt M (my_cell alpha k)"
  have lens: "length state_order = 26 \<and> length rate_order = 26"
    by (simp add: state_order_def rate_order_def)
  have input: "\<forall>i<26. (state_order ! i) (my_cell alpha k) = k ! i"
    unfolding all_less_26 by (simp add: state_order_def my_cell_def)
  have base: "dkdt_nostim M alpha t k = Inr (map (\<lambda>f. f (?r, ?g)) rate_order)"
    using assms by (simp add: dkdt_nostim_value rate_tuple_rate_order)
  have ro: "(rate_order ! 4) (?r, ?g) = dKdt_si ?r" "(rate_order ! 5) (?r, ?g) = dKdt_se ?r"
    by (simp_all add: rate_order_def)
  have frame: "rate_tuple ?r ?g kp ! i = (rate_order ! i) (?r, ?g)"
    if "i < 26" "i \<noteq> 4" "i \<noteq> 5" for i kp
  proof -
    have "rate_tuple ?r ?g kp ! i = rate_tuple ?r ?g (dKdt_si ?r, dKdt_se ?r) ! i"
      using that by (rule rate_tuple_frame)
    also have "\<dots> = map (\<lambda>f. f (?r, ?g)) rate_order ! i"
      by (simp only: rate_tuple_rate_order)
    also have "\<dots> = (rate_order ! i) (?r, ?g)"
      using that lens by simp
    finally show ?thesis .
  qed
  have out: "\<exists>out. dkdt M inject alpha I_stim stim_start stim_end t k = Inr out \<and> length out = 26
            \<and> (\<forall>i<26. i \<noteq> 4 \<and> i \<noteq> 5 \<longrightarrow> out ! i = (rate_order ! i) (?r, ?g))
            \<and> (out ! 4, out ! 5) =
                 (if stim_start < t \<and> t < stim_end
                  then inject (my_cell alpha k) ((rate_order ! 4) (?r, ?g)) ((rate_order ! 5) (?r, ?g)) 1 I_stim
                  else ((rate_order ! 4) (?r, ?g), (rate_order ! 5) (?r, ?g)))"
  proof (cases "stim_start < t \<and> t < stim_end")
    case True
    then show ?thesis
      using assms frame
      by (simp add: dkdt_inside_window length_rate_tuple rate_tuple_soma_K ro)
  next
    case False
    then have "dkdt M inject alpha I_stim stim_start stim_end t k = dkdt_nostim M alpha t k"
      by (rule dkdt_outside_window)
    with False show ?thesis
      using assms frame
      by (auto simp add: dkdt_nostim_value length_rate_tuple rate_tuple_soma_K ro)
  qed
  from lens input base out show ?thesis by blast
qed

theorem dkdt_positional_alignment_witness:
  "length k0 = 26 \<and> (state_order ! 16) (my_cell 2 k0) = k0 ! 16 \<and>
   dkdt_nostim example_class 2 0 k0 =
     Inr (map (\<lambda>f. f (meth_dkdt example_class (my_cell 2 k0), meth_dmdt example_class (my_cell 2 k0)))
            rate_order)"
  using dkdt_positional_alignment [OF length_k0, of 2 example_class 0
      "somatic_injection_current example_class" "28 / 10 ^ 12" 10 20]
  by (simp add: length_k0)






text \<open>
  C10. What the driver returns is what the integrator makes of \<open>dkdt\<close>, the time span
  \<open>(0, t_dur)\<close>, the initial vector \<open>k0\<close> and the step bound; the methods behind the
  diagnostics of the initial cell (membrane potentials, reversal potentials, total
  charges) can be replaced by any others without changing it.
\<close>

theorem solve_EDPRmodel_ignores_diagnostics:
  "solve_EDPRmodel M inject ivp t_dur alpha I_stim stim_start stim_end =
     (case ivp (dkdt M inject alpha I_stim stim_start stim_end) (0, t_dur) k0 (1 / 10 ^ 4) of
        Inl err \<Rightarrow> Inl err
      | Inr sol \<Rightarrow> if length (sol_y sol) \<noteq> 26 then Inl ValueError else Inr sol)
   \<and> solve_EDPRmodel
       (M\<lparr>meth_membrane_potentials := mp, meth_reversal_potentials := rp, meth_total_charge := tc\<rparr>)
       inject ivp t_dur alpha I_stim stim_start stim_end
     = solve_EDPRmodel M inject ivp t_dur alpha I_stim stim_start stim_end"
proof -
  have "dkdt (M\<lparr>meth_membrane_potentials := mp, meth_reversal_potentials := rp,
                 meth_total_charge := tc\<rparr>) inject alpha I_stim stim_start stim_end
          = dkdt M inject alpha I_stim stim_start stim_end"
    by (intro ext) (simp add: dkdt_def)
  then show ?thesis
    by (simp add: solve_EDPRmodel_unfold)
qed

end
